theory Spec2Isabelle
  imports Main
begin

section \<open>Python values and strings\<close>

text \<open>
  The values that travel through \<^verbatim>\<open>friday_core.py\<close> are the ones \<^verbatim>\<open>json.load\<close> can return and
  \<^verbatim>\<open>json.dump\<close> can write: \<^verbatim>\<open>None\<close>, booleans, integers, floats (kept as their literal), strings,
  lists and dictionaries (an association list in insertion order). Text is a \<open>string\<close>, one
  \<open>char\<close> per character, so the model covers the characters 0..255.
\<close>

datatype json =
    JNull
  | JBool bool
  | JInt int
  | JFloat string
  | JStr string
  | JArr "json list"
  | JObj "(string \<times> json) list"

text \<open>
  Exceptions below \<^verbatim>\<open>Exception\<close>. \<^verbatim>\<open>query_llm\<close> tells \<^verbatim>\<open>requests.exceptions.RequestException\<close>
  from every other one.
\<close>

datatype exn = RequestException | KeyError | TypeError | AttributeError | OtherException

definition newline :: char where
  "newline = CHR 0x0A"

definition quote :: char where
  "quote = CHR 0x27"

text \<open>\<^verbatim>\<open>s.startswith(p)\<close> and \<^verbatim>\<open>p in s\<close> on strings.\<close>

fun starts_with :: "string \<Rightarrow> string \<Rightarrow> bool" where
  "starts_with s [] = True"
| "starts_with [] (p # ps) = False"
| "starts_with (c # cs) (p # ps) = (c = p \<and> starts_with cs ps)"

fun str_in :: "string \<Rightarrow> string \<Rightarrow> bool" where
  "str_in p [] = (p = [])"
| "str_in p (c # cs) = (starts_with (c # cs) p \<or> str_in p cs)"

text \<open>
  \<^verbatim>\<open>s.replace(old, new)\<close>: every occurrence of \<^verbatim>\<open>old\<close>, found from the left without overlap, is
  replaced. With an empty \<^verbatim>\<open>old\<close> Python puts \<^verbatim>\<open>new\<close> before every character and at the end.
\<close>

function str_replace :: "string \<Rightarrow> string \<Rightarrow> string \<Rightarrow> string" where
  "str_replace [] old new = (if old = [] then new else [])"
| "str_replace (c # cs) old new =
     (if old = [] then new @ c # str_replace cs old new
      else if starts_with (c # cs) old
        then new @ str_replace (drop (length old) (c # cs)) old new
      else c # str_replace cs old new)"
  by pat_completeness auto
termination
  by (relation "measure (\<lambda>(s, old, new). length s)") auto

text \<open>\<^verbatim>\<open>s.strip()\<close>: the characters for which \<^verbatim>\<open>str.isspace\<close> holds, below 256.\<close>

definition is_space :: "char \<Rightarrow> bool" where
  "is_space c = (let n = (of_char c :: nat) in
     (9 \<le> n \<and> n \<le> 13) \<or> (28 \<le> n \<and> n \<le> 32) \<or> n = 133 \<or> n = 160)"

definition strip :: "string \<Rightarrow> string" where
  "strip s = rev (dropWhile is_space (rev (dropWhile is_space s)))"

text \<open>\<^verbatim>\<open>s.lower()\<close>: A..Z and the upper-case letters of Latin-1 move up by 32.\<close>

definition lower_char :: "char \<Rightarrow> char" where
  "lower_char c = (let n = (of_char c :: nat) in
     if (65 \<le> n \<and> n \<le> 90) \<or> (192 \<le> n \<and> n \<le> 222 \<and> n \<noteq> 215)
     then char_of (n + 32) else c)"

definition lower :: "string \<Rightarrow> string" where
  "lower s = map lower_char s"

text \<open>
  \<^verbatim>\<open>v[key]\<close> with a string key: a dictionary answers or raises \<^verbatim>\<open>KeyError\<close>, every other value
  raises \<^verbatim>\<open>TypeError\<close>.
\<close>

fun subscript :: "json \<Rightarrow> string \<Rightarrow> exn + json" where
  "subscript (JObj kvs) key = (case map_of kvs key of None \<Rightarrow> Inl KeyError | Some v \<Rightarrow> Inr v)"
| "subscript JNull key = Inl TypeError"
| "subscript (JBool b) key = Inl TypeError"
| "subscript (JInt i) key = Inl TypeError"
| "subscript (JFloat f) key = Inl TypeError"
| "subscript (JStr t) key = Inl TypeError"
| "subscript (JArr xs) key = Inl TypeError"

text \<open>\<^verbatim>\<open>v.get(key, default)\<close>: only a dictionary has the method.\<close>

fun dict_get :: "json \<Rightarrow> string \<Rightarrow> json \<Rightarrow> exn + json" where
  "dict_get (JObj kvs) key dflt = (case map_of kvs key of None \<Rightarrow> Inr dflt | Some v \<Rightarrow> Inr v)"
| "dict_get JNull key dflt = Inl AttributeError"
| "dict_get (JBool b) key dflt = Inl AttributeError"
| "dict_get (JInt i) key dflt = Inl AttributeError"
| "dict_get (JFloat f) key dflt = Inl AttributeError"
| "dict_get (JStr t) key dflt = Inl AttributeError"
| "dict_get (JArr xs) key dflt = Inl AttributeError"

text \<open>
  \<^verbatim>\<open>for x in v\<close>: a list gives its elements, a dictionary its keys, a string its characters;
  nothing else is iterable.
\<close>

fun iterate :: "json \<Rightarrow> exn + json list" where
  "iterate (JArr xs) = Inr xs"
| "iterate (JObj kvs) = Inr (map (\<lambda>kv. JStr (fst kv)) kvs)"
| "iterate (JStr t) = Inr (map (\<lambda>c. JStr [c]) t)"
| "iterate JNull = Inl TypeError"
| "iterate (JBool b) = Inl TypeError"
| "iterate (JInt i) = Inl TypeError"
| "iterate (JFloat f) = Inl TypeError"

text \<open>
  \<^verbatim>\<open>collections.deque(maxlen=n).append(x)\<close>: the element goes in on the right and, when the
  deque is then longer than \<^verbatim>\<open>maxlen\<close>, the leftmost element is dropped.
\<close>

definition deque_append :: "nat \<Rightarrow> 'a list \<Rightarrow> 'a \<Rightarrow> 'a list" where
  "deque_append maxlen d x = (let d' = d @ [x] in if maxlen < length d' then tl d' else d')"


section \<open>The assistant and the world around it\<close>

text \<open>
  What the code reads from outside: the answer of the Ollama server to the n-th request, the
  wall clock (hour 0..23 and minute), Python's \<^verbatim>\<open>str()\<close> of a value that is not a string, and
  whether a path can be opened for writing.
\<close>

datatype response = Response (status_code: int) (body: "exn + json")

record env =
  ollama :: "nat \<Rightarrow> string \<Rightarrow> exn + response"
  now :: "nat \<times> nat"
  py_str :: "json \<Rightarrow> string"
  writable :: "string \<Rightarrow> bool"

text \<open>
  A file either holds a JSON document (the value \<^verbatim>\<open>json.load\<close> returns for it, which is the
  value \<^verbatim>\<open>json.dump\<close> wrote), or text that \<^verbatim>\<open>json.load\<close> rejects, or cannot be opened.
\<close>

datatype file_node = Document json | Malformed | Unreadable

text \<open>
  The fields of \<^verbatim>\<open>FridayCore\<close> that the modelled methods use, followed by the effects on the
  outside: the texts handed to \<^verbatim>\<open>engine.say\<close>, the prompts sent with \<^verbatim>\<open>requests.post\<close>, and
  the file system. Console output is not modelled.
\<close>

record friday =
  name :: string
  wake_word :: string
  should_stop :: bool
  privacy_mode :: bool
  max_context_length :: nat
  conversation_history :: "json list"
  spoken :: "json list"
  posted :: "string list"
  files :: "string \<Rightarrow> file_node option"

text \<open>The dictionary literal \<^verbatim>\<open>{"role": r, "content": c}\<close>.\<close>

definition message :: "string \<Rightarrow> json \<Rightarrow> json" where
  "message r c = JObj [(''role'', JStr r), (''content'', c)]"

text \<open>\<^verbatim>\<open>self.conversation_history.append(m)\<close>\<close>

definition history_append :: "json \<Rightarrow> friday \<Rightarrow> friday" where
  "history_append m s =
     s\<lparr>conversation_history := deque_append (max_context_length s) (conversation_history s) m\<rparr>"

text \<open>\<^verbatim>\<open>speak\<close> (lines 119-127)\<close>

definition speak :: "json \<Rightarrow> friday \<Rightarrow> friday" where
  "speak text s = (if privacy_mode s then s else s\<lparr>spoken := spoken s @ [text]\<rparr>)"

text \<open>An f-string field \<^verbatim>\<open>{v}\<close>: a string is inserted as it is.\<close>

definition format :: "env \<Rightarrow> json \<Rightarrow> string" where
  "format e v = (case v of JStr t \<Rightarrow> t | _ \<Rightarrow> py_str e v)"

text \<open>
  \<^verbatim>\<open>query_llm\<close> (lines 234-276). First the body of the loop that renders the history
  (lines 240-241): the line for one message, or the exception of a subscript.
\<close>

definition render_message :: "env \<Rightarrow> string \<Rightarrow> json \<Rightarrow> exn + string" where
  "render_message e nm msg =
     (case subscript msg ''role'' of
        Inl x \<Rightarrow> Inl x
      | Inr role \<Rightarrow>
          (case subscript msg ''content'' of
             Inl x \<Rightarrow> Inl x
           | Inr content \<Rightarrow>
               Inr ((if role = JStr ''user'' then ''User: '' else nm @ '': '')
                    @ format e content @ [newline])))"

text \<open>The loop of lines 239-241, with \<^verbatim>\<open>context\<close> as the accumulator.\<close>

fun build_context :: "env \<Rightarrow> string \<Rightarrow> json list \<Rightarrow> string \<Rightarrow> exn + string" where
  "build_context e nm [] context = Inr context"
| "build_context e nm (msg # rest) context =
     (case render_message e nm msg of
        Inl x \<Rightarrow> Inl x
      | Inr line \<Rightarrow> build_context e nm rest (context @ line))"

text \<open>
  The \<^verbatim>\<open>any(...)\<close> of lines 244-245. It runs after the loop above has read both keys of every
  message, so its subscripts cannot raise.
\<close>

definition in_history :: "string \<Rightarrow> json list \<Rightarrow> bool" where
  "in_history prompt hist =
     list_ex (\<lambda>msg. subscript msg ''content'' = Inr (JStr prompt)
                  \<and> subscript msg ''role'' = Inr (JStr ''user'')) hist"

definition no_answer :: string where
  "no_answer = ''I'm sorry, I couldn't process that request.''"

definition brain_trouble :: string where
  "brain_trouble = ''I'm having trouble connecting to my brain right now.''"

definition ollama_trouble :: string where
  "ollama_trouble = ''I'm having trouble connecting to my language model. Is Ollama running?''"

definition unexpected_error :: string where
  "unexpected_error = ''I encountered an unexpected error. Please try again.''"

text \<open>
  Lines 238-246: the rendered history, and after it the lines for the current query unless
  \<^verbatim>\<open>any(...)\<close> found it in the history. \<open>Inl\<close> is the exception a subscript raised.
\<close>

definition assemble_prompt :: "env \<Rightarrow> string \<Rightarrow> friday \<Rightarrow> exn + string" where
  "assemble_prompt e prompt s =
     (case build_context e (name s) (conversation_history s) [] of
        Inl x \<Rightarrow> Inl x
      | Inr rendered \<Rightarrow>
          Inr (if \<not> in_history prompt (conversation_history s)
               then rendered @ ''User: '' @ prompt @ [newline] @ name s @ '': ''
               else rendered))"

text \<open>The body of the \<^verbatim>\<open>try\<close>: \<open>Inl\<close> is the exception that leaves it.\<close>

definition query_llm_try :: "env \<Rightarrow> string \<Rightarrow> friday \<Rightarrow> (exn + json) \<times> friday" where
  "query_llm_try e prompt s =
     (case assemble_prompt e prompt s of
        Inl x \<Rightarrow> (Inl x, s)
      | Inr context \<Rightarrow>
          (let s' = s\<lparr>posted := posted s @ [context]\<rparr>
           in case ollama e (length (posted s)) context of
                Inl x \<Rightarrow> (Inl x, s')
              | Inr resp \<Rightarrow>
                  if status_code resp = 200
                  then (case body resp of
                          Inl x \<Rightarrow> (Inl x, s')
                        | Inr result \<Rightarrow> (dict_get result ''response'' (JStr no_answer), s'))
                  else (Inr (JStr brain_trouble), s')))"

text \<open>The two \<^verbatim>\<open>except\<close> clauses.\<close>

definition query_llm :: "env \<Rightarrow> string \<Rightarrow> friday \<Rightarrow> json \<times> friday" where
  "query_llm e prompt s =
     (case query_llm_try e prompt s of
        (Inr v, s') \<Rightarrow> (v, s')
      | (Inl RequestException, s') \<Rightarrow> (JStr ollama_trouble, s')
      | (Inl x, s') \<Rightarrow> (JStr unexpected_error, s'))"


section \<open>Built-in commands\<close>

datatype handler = TellStory | TellTime | TogglePrivacy | StopListening | ShowHelp

text \<open>\<^verbatim>\<open>initialize_commands\<close> (lines 104-117): the dictionary, in insertion order.\<close>

definition commands :: "(string \<times> handler) list" where
  "commands =
     [(''tell me a story'', TellStory),
      (''what time is it'', TellTime),
      (''what's the time'', TellTime),
      (''current time'', TellTime),
      (''privacy shield'', TogglePrivacy),
      (''privacy mode'', TogglePrivacy),
      (''stop listening'', StopListening),
      (''goodbye'', StopListening),
      (''exit'', StopListening),
      (''help'', ShowHelp)]"

text \<open>\<^verbatim>\<open>strftime("%I:%M %p")\<close>: twelve-hour clock, two digits each, then AM or PM.\<close>

definition two_digits :: "nat \<Rightarrow> string" where
  "two_digits n = [char_of (48 + n div 10 mod 10), char_of (48 + n mod 10)]"

definition strftime_I_M_p :: "nat \<times> nat \<Rightarrow> string" where
  "strftime_I_M_p t =
     two_digits (if fst t mod 12 = 0 then 12 else fst t mod 12) @ '':'' @ two_digits (snd t)
       @ '' '' @ (if fst t < 12 then ''AM'' else ''PM'')"

text \<open>\<^verbatim>\<open>tell_time\<close> (lines 298-301)\<close>

definition tell_time :: "env \<Rightarrow> friday \<Rightarrow> friday" where
  "tell_time e s = speak (JStr (''The current time is '' @ strftime_I_M_p (now e))) s"

definition story_prompt :: string where
  "story_prompt = ''Generate a short, engaging story (less than 100 words)''"

text \<open>\<^verbatim>\<open>tell_story\<close> (lines 303-308)\<close>

definition tell_story :: "env \<Rightarrow> friday \<Rightarrow> friday" where
  "tell_story e s =
     (let s1 = speak (JStr ''Let me think of a story for you...'') s;
          (story, s2) = query_llm e story_prompt s1
      in speak story s2)"

text \<open>\<^verbatim>\<open>toggle_privacy\<close> (lines 310-316)\<close>

definition toggle_privacy :: "friday \<Rightarrow> friday" where
  "toggle_privacy s =
     (let s1 = s\<lparr>privacy_mode := \<not> privacy_mode s\<rparr>
      in if privacy_mode s1
         then speak (JStr ''Privacy shield activated. I'll be more discreet.'') s1
         else speak (JStr ''Privacy shield deactivated. Normal operations resumed.'') s1)"

text \<open>\<^verbatim>\<open>stop_listening\<close> (lines 318-321)\<close>

definition stop_listening :: "friday \<Rightarrow> friday" where
  "stop_listening s = (speak (JStr ''Goodbye. Going offline now.'') s)\<lparr>should_stop := True\<rparr>"

text \<open>\<^verbatim>\<open>show_help\<close> (lines 323-330): the loop over \<^verbatim>\<open>enumerate(self.commands.keys())\<close>.\<close>

fun help_loop :: "nat \<Rightarrow> string list \<Rightarrow> string \<Rightarrow> string" where
  "help_loop i [] help_text = help_text"
| "help_loop i (cmd # rest) help_text =
     help_loop (i + 1) rest ((if 0 < i then help_text @ '', '' else help_text) @ cmd)"

definition show_help :: "friday \<Rightarrow> friday" where
  "show_help s =
     speak (JStr (help_loop 0 (map fst commands) ''Here are some commands you can use: '')) s"

text \<open>Calling the bound method stored in the table.\<close>

fun call_handler :: "env \<Rightarrow> handler \<Rightarrow> friday \<Rightarrow> friday" where
  "call_handler e TellStory s = tell_story e s"
| "call_handler e TellTime s = tell_time e s"
| "call_handler e TogglePrivacy s = toggle_privacy s"
| "call_handler e StopListening s = stop_listening s"
| "call_handler e ShowHelp s = show_help s"


section \<open>Routing\<close>

text \<open>\<^verbatim>\<open>_handle_conversation\<close> (lines 220-232)\<close>

definition handle_conversation :: "env \<Rightarrow> string \<Rightarrow> friday \<Rightarrow> friday" where
  "handle_conversation e user_input s =
     (let s1 = history_append (message ''user'' (JStr user_input)) s;
          (response, s2) = query_llm e user_input s1;
          s3 = history_append (message ''assistant'' response) s2
      in speak response s3)"

text \<open>\<^verbatim>\<open>_process_command\<close> (lines 205-218)\<close>

definition process_command :: "env \<Rightarrow> string \<Rightarrow> friday \<Rightarrow> friday" where
  "process_command e command s =
     (if command = [] then speak (JStr ''How can I help you?'') s
      else case find (\<lambda>entry. str_in (fst entry) command) commands of
             Some entry \<Rightarrow> call_handler e (snd entry) s
           | None \<Rightarrow> handle_conversation e command s)"

text \<open>
  \<^verbatim>\<open>_process_audio\<close> (lines 168-203). The wake-word block of lines 186-201 gives the command
  handed on, or nothing when no pattern occurs in the text.
\<close>

definition wake_patterns :: "string \<Rightarrow> string list" where
  "wake_patterns w = [''hey '' @ w, ''ok '' @ w, ''okay '' @ w, ''hi '' @ w, w]"

definition wake_command :: "string \<Rightarrow> string \<Rightarrow> string option" where
  "wake_command w text =
     (if list_ex (\<lambda>pattern. str_in pattern text) (wake_patterns w)
      then (case find (\<lambda>pattern. str_in pattern text) (wake_patterns w) of
              Some pattern \<Rightarrow> Some (strip (str_replace text pattern []))
            | None \<Rightarrow> Some [])
      else None)"

text \<open>
  The argument is what the recognisers made of the audio: \<open>None\<close> when both of them failed
  and the method returned early.
\<close>

definition process_audio :: "env \<Rightarrow> string option \<Rightarrow> friday \<Rightarrow> friday" where
  "process_audio e recognized s =
     (case recognized of
        None \<Rightarrow> s
      | Some heard \<Rightarrow>
          (case wake_command (wake_word s) (lower heard) of
             Some command \<Rightarrow> process_command e command s
           | None \<Rightarrow> s))"

text \<open>\<^verbatim>\<open>process_text_input\<close> (lines 332-352)\<close>

definition process_text_input :: "env \<Rightarrow> string \<Rightarrow> friday \<Rightarrow> json \<times> friday" where
  "process_text_input e text s =
     (if text = [] then (JStr ''Please enter a message.'', s)
      else
        (let s1 = history_append (message ''user'' (JStr text)) s
         in case find (\<lambda>entry. str_in (fst entry) (lower text)) commands of
              Some entry \<Rightarrow>
                (JStr (''Command '' @ [quote] @ fst entry @ [quote] @ '' executed.''),
                 call_handler e (snd entry) s1)
            | None \<Rightarrow>
                (let (response, s2) = query_llm e text s1
                 in (response, history_append (message ''assistant'' response) s2))))"


section \<open>Saving and loading\<close>

text \<open>\<^verbatim>\<open>save_conversation\<close> (lines 354-362)\<close>

definition save_conversation :: "env \<Rightarrow> string \<Rightarrow> friday \<Rightarrow> bool \<times> friday" where
  "save_conversation e filepath s =
     (if writable e filepath
      then (True, s\<lparr>files := (files s)(filepath \<mapsto> Document (JArr (conversation_history s)))\<rparr>)
      else (False, s))"

text \<open>
  \<^verbatim>\<open>load_conversation\<close> (lines 364-378). The history is cleared once \<^verbatim>\<open>json.load\<close> has
  returned, before the loop starts to iterate over the loaded value.
\<close>

definition load_conversation :: "string \<Rightarrow> friday \<Rightarrow> bool \<times> friday" where
  "load_conversation filepath s =
     (case files s filepath of
        None \<Rightarrow> (False, s)
      | Some Unreadable \<Rightarrow> (False, s)
      | Some Malformed \<Rightarrow> (False, s)
      | Some (Document loaded_history) \<Rightarrow>
          (let s1 = s\<lparr>conversation_history := []\<rparr>
           in case iterate loaded_history of
                Inl x \<Rightarrow> (False, s1)
              | Inr msgs \<Rightarrow> (True, foldl (\<lambda>s' m. history_append m s') s1 msgs)))"

text \<open>
  \<^verbatim>\<open>load_chat_history\<close> of \<^verbatim>\<open>optimi_fridayapp.py\<close> (lines 646-677), the loader of the second
  front end for its own \<^verbatim>\<open>chat_history\<close> list: it checks the shape (lines 659-662) before it
  assigns. The flag says whether the load went through.
\<close>

fun is_dict :: "json \<Rightarrow> bool" where
  "is_dict (JObj kvs) = True"
| "is_dict v = False"

fun has_key :: "string \<Rightarrow> json \<Rightarrow> bool" where
  "has_key key (JObj kvs) = (map_of kvs key \<noteq> None)"
| "has_key key v = False"

fun valid_chat_history :: "json \<Rightarrow> bool" where
  "valid_chat_history (JArr items) =
     list_all (\<lambda>item. is_dict item \<and> has_key ''role'' item \<and> has_key ''content'' item) items"
| "valid_chat_history v = False"

definition load_chat_history :: "file_node option \<Rightarrow> json list \<Rightarrow> bool \<times> json list" where
  "load_chat_history node chat_history =
     (case node of
        Some (Document loaded_history) \<Rightarrow>
          (if \<not> valid_chat_history loaded_history then (False, chat_history)
           else (case loaded_history of JArr items \<Rightarrow> (True, items) | _ \<Rightarrow> (False, chat_history)))
      | _ \<Rightarrow> (False, chat_history))"


section \<open>Sequences of calls\<close>

datatype call =
    ProcessTextInput string
  | HandleConversation string
  | ProcessAudio "string option"
  | SaveConversation string
  | LoadConversation string

fun do_call :: "env \<Rightarrow> call \<Rightarrow> friday \<Rightarrow> friday" where
  "do_call e (ProcessTextInput text) s = snd (process_text_input e text s)"
| "do_call e (HandleConversation text) s = handle_conversation e text s"
| "do_call e (ProcessAudio recognized) s = process_audio e recognized s"
| "do_call e (SaveConversation filepath) s = snd (save_conversation e filepath s)"
| "do_call e (LoadConversation filepath) s = snd (load_conversation filepath s)"

fun run :: "env \<Rightarrow> call list \<Rightarrow> friday \<Rightarrow> friday" where
  "run e [] s = s"
| "run e (c # cs) s = run e cs (do_call e c s)"


section \<open>Concrete inputs\<close>

text \<open>
  An outside world in which the Ollama server cannot be reached, the clock shows 14:05,
  every path is writable and \<^verbatim>\<open>str()\<close> of a value that is not a string is left as a
  question mark (no example below formats one); and an assistant whose fields are as
  \<^verbatim>\<open>__init__\<close> (lines 31-39) assigns them, with the default wake word, a given capacity,
  nothing said or posted yet and no files.
\<close>

definition e0 :: env where
  "e0 = \<lparr>ollama = (\<lambda>n p. Inl RequestException), now = (14, 5), py_str = (\<lambda>v. ''?''),
          writable = (\<lambda>p. True)\<rparr>"

definition fresh :: "nat \<Rightarrow> friday" where
  "fresh maxlen = \<lparr>name = ''FRIDAY'', wake_word = ''friday'', should_stop = False,
     privacy_mode = False, max_context_length = maxlen, conversation_history = [],
     spoken = [], posted = [], files = Map.empty\<rparr>"

text \<open>
  An assistant in the middle of a conversation (one user turn in a buffer of capacity 2) with
  one file, \<^verbatim>\<open>chat.json\<close>, of the given content.
\<close>

definition with_file :: "file_node \<Rightarrow> friday" where
  "with_file node = (fresh 2)\<lparr>conversation_history := [message ''user'' (JStr ''hi'')],
     files := [''chat.json'' \<mapsto> node]\<rparr>"


section \<open>The wording of the specification, and the invariant\<close>

text \<open>
  The wake-word step as the specification words it, for comparison with line 198: only the
  first occurrence of the pattern is taken out (\<^verbatim>\<open>text.replace(pattern, "", 1)\<close>).
\<close>

fun spec_remove_first :: "string \<Rightarrow> string \<Rightarrow> string" where
  "spec_remove_first [] pattern = []"
| "spec_remove_first (c # cs) pattern =
     (if starts_with (c # cs) pattern then drop (length pattern) (c # cs)
      else c # spec_remove_first cs pattern)"

text \<open>
  The test before the final lines of the prompt as the specification words it, for
  comparison with lines 244-245: the new user turn is the most recent entry of the buffer.
\<close>

definition spec_is_latest :: "string \<Rightarrow> json list \<Rightarrow> bool" where
  "spec_is_latest prompt hist =
     (hist \<noteq> [] \<and> subscript (last hist) ''content'' = Inr (JStr prompt)
        \<and> subscript (last hist) ''role'' = Inr (JStr ''user''))"

text \<open>The invariant of the conversation buffer.\<close>

definition bounded :: "friday \<Rightarrow> bool" where
  "bounded s = (length (conversation_history s) \<le> max_context_length s)"


section \<open>What each operation leaves alone\<close>

lemma deque_append_length:
  "length d \<le> m \<Longrightarrow> length (deque_append m d x) \<le> m"
  by (simp add: deque_append_def Let_def)

lemma deque_append_drop:
  "length d \<le> m \<Longrightarrow> deque_append m d x = drop (Suc (length d) - m) (d @ [x])"
  by (cases d) (auto simp: deque_append_def Let_def Suc_diff_le drop_Cons')

lemma query_llm_try_state: "\<exists>ps. snd (query_llm_try e p s) = s\<lparr>posted := ps\<rparr>"
proof (cases "assemble_prompt e p s")
  case (Inl x)
  then have "snd (query_llm_try e p s) = s\<lparr>posted := posted s\<rparr>"
    by (simp add: query_llm_try_def)
  then show ?thesis by blast
next
  case (Inr ctx)
  then show ?thesis
    by (auto simp: query_llm_try_def Let_def split: sum.splits)
qed

lemma query_llm_state: "\<exists>ps. snd (query_llm e p s) = s\<lparr>posted := ps\<rparr>"
proof -
  obtain ps where "snd (query_llm_try e p s) = s\<lparr>posted := ps\<rparr>"
    using query_llm_try_state by blast
  then have "snd (query_llm e p s) = s\<lparr>posted := ps\<rparr>"
    by (cases "query_llm_try e p s") (auto simp: query_llm_def split: sum.splits exn.splits)
  then show ?thesis by blast
qed

lemma query_llm_history [simp]:
  "conversation_history (snd (query_llm e p s)) = conversation_history s"
  using query_llm_state [of e p s] by auto

lemma query_llm_max [simp]:
  "max_context_length (snd (query_llm e p s)) = max_context_length s"
  using query_llm_state [of e p s] by auto

lemma query_llm_privacy [simp]:
  "privacy_mode (snd (query_llm e p s)) = privacy_mode s"
  using query_llm_state [of e p s] by auto

lemma query_llm_spoken [simp]:
  "spoken (snd (query_llm e p s)) = spoken s"
  using query_llm_state [of e p s] by auto

lemma speak_history [simp]: "conversation_history (speak t s) = conversation_history s"
  by (simp add: speak_def)

lemma speak_max [simp]: "max_context_length (speak t s) = max_context_length s"
  by (simp add: speak_def)

lemma history_append_max [simp]: "max_context_length (history_append m s) = max_context_length s"
  by (simp add: history_append_def)

lemma history_append_history:
  "conversation_history (history_append m s) =
     deque_append (max_context_length s) (conversation_history s) m"
  by (simp add: history_append_def)

lemma call_handler_history [simp]:
  "conversation_history (call_handler e h s) = conversation_history s"
  by (cases h)
     (simp_all add: tell_story_def tell_time_def toggle_privacy_def stop_listening_def
        show_help_def Let_def split_beta)

lemma call_handler_max [simp]:
  "max_context_length (call_handler e h s) = max_context_length s"
  by (cases h)
     (simp_all add: tell_story_def tell_time_def toggle_privacy_def stop_listening_def
        show_help_def Let_def split_beta)

lemma handle_conversation_history:
  "conversation_history (handle_conversation e u s) =
     deque_append (max_context_length s)
       (deque_append (max_context_length s) (conversation_history s) (message ''user'' (JStr u)))
       (message ''assistant'' (fst (query_llm e u (history_append (message ''user'' (JStr u)) s))))"
  by (simp add: handle_conversation_def Let_def split_beta history_append_history)

lemma handle_conversation_max [simp]:
  "max_context_length (handle_conversation e u s) = max_context_length s"
  by (simp add: handle_conversation_def Let_def split_beta)

lemma process_text_input_max [simp]:
  "max_context_length (snd (process_text_input e t s)) = max_context_length s"
  by (simp add: process_text_input_def Let_def split_beta split: option.splits)

lemma process_command_max [simp]:
  "max_context_length (process_command e c s) = max_context_length s"
  by (simp add: process_command_def split: option.splits)

lemma process_audio_max [simp]:
  "max_context_length (process_audio e r s) = max_context_length s"
  by (simp add: process_audio_def split: option.splits)

lemma history_append_bounded: "bounded s \<Longrightarrow> bounded (history_append m s)"
  by (simp add: bounded_def history_append_history deque_append_length)

lemma foldl_history_append_max [simp]:
  "max_context_length (foldl (\<lambda>s' m. history_append m s') s msgs) = max_context_length s"
  by (induction msgs arbitrary: s) simp_all

lemma foldl_history_append_bounded:
  "bounded s \<Longrightarrow> bounded (foldl (\<lambda>s' m. history_append m s') s msgs)"
  by (induction msgs arbitrary: s) (simp_all add: history_append_bounded)

lemma load_conversation_max [simp]:
  "max_context_length (snd (load_conversation p s)) = max_context_length s"
  by (simp add: load_conversation_def Let_def split: option.splits file_node.splits sum.splits)

lemma save_conversation_max [simp]:
  "max_context_length (snd (save_conversation e p s)) = max_context_length s"
  by (simp add: save_conversation_def)

lemma handle_conversation_bounded: "bounded s \<Longrightarrow> bounded (handle_conversation e u s)"
  by (simp add: bounded_def handle_conversation_history deque_append_length)

lemma process_text_input_bounded: "bounded s \<Longrightarrow> bounded (snd (process_text_input e t s))"
  by (auto simp: bounded_def process_text_input_def Let_def split_beta history_append_history
      deque_append_length split: option.splits)

lemma process_command_bounded: "bounded s \<Longrightarrow> bounded (process_command e c s)"
  using handle_conversation_bounded [of s e c]
  by (auto simp: bounded_def process_command_def split: option.splits)

lemma process_audio_bounded: "bounded s \<Longrightarrow> bounded (process_audio e r s)"
  using process_command_bounded
  by (auto simp: process_audio_def split: option.splits)

lemma load_conversation_bounded: "bounded s \<Longrightarrow> bounded (snd (load_conversation p s))"
proof -
  have "bounded (s\<lparr>conversation_history := []\<rparr>)" by (simp add: bounded_def)
  then have "bounded (foldl (\<lambda>s' m. history_append m s') (s\<lparr>conversation_history := []\<rparr>) msgs)" for msgs
    by (rule foldl_history_append_bounded)
  moreover assume "bounded s"
  ultimately show ?thesis
    by (auto simp: load_conversation_def Let_def bounded_def split: option.splits file_node.splits sum.splits)
qed

lemma save_conversation_bounded: "bounded s \<Longrightarrow> bounded (snd (save_conversation e p s))"
  by (simp add: save_conversation_def bounded_def)

lemma do_call_bounded: "bounded s \<Longrightarrow> bounded (do_call e c s)"
  by (cases c) (simp_all add: process_text_input_bounded handle_conversation_bounded
      process_audio_bounded load_conversation_bounded save_conversation_bounded)

lemma do_call_max [simp]: "max_context_length (do_call e c s) = max_context_length s"
  by (cases c) simp_all

lemma run_max [simp]: "max_context_length (run e cs s) = max_context_length s"
  by (induction cs arbitrary: s) simp_all

lemma run_bounded: "bounded s \<Longrightarrow> bounded (run e cs s)"
  by (induction cs arbitrary: s) (simp_all add: do_call_bounded)


lemma deque_append_full: "length ys = m \<Longrightarrow> deque_append m ys x = tl (ys @ [x])"
  by (simp add: deque_append_def)

lemma tl_drop_snoc: "n \<le> length L \<Longrightarrow> tl (drop n L @ [x]) = drop (Suc n) (L @ [x])"
proof -
  assume "n \<le> length L"
  then have "drop n L @ [x] = drop n (L @ [x])" by simp
  then have "tl (drop n L @ [x]) = tl (drop n (L @ [x]))" by (rule arg_cong)
  also have "\<dots> = drop (Suc n) (L @ [x])" by (simp only: tl_drop drop_Suc)
  finally show ?thesis .
qed

lemma foldl_deque_append:
  "length d \<le> m \<Longrightarrow>
   foldl (deque_append m) d xs = drop (length d + length xs - m) (d @ xs)"
proof (induction xs rule: rev_induct)
  case Nil
  then show ?case by simp
next
  case (snoc x xs)
  let ?L = "d @ xs"
  let ?n = "length ?L - m"
  have step: "foldl (deque_append m) d (xs @ [x]) = deque_append m (drop ?n ?L) x"
    using snoc by simp
  show ?case
  proof (cases "length ?L < m")
    case True
    then have "deque_append m (drop ?n ?L) x = ?L @ [x]"
      by (simp add: deque_append_def Let_def)
    then show ?thesis using True step by simp
  next
    case False
    then have len: "length (drop ?n ?L) = m" by simp
    have "deque_append m (drop ?n ?L) x = tl (drop ?n ?L @ [x])"
      using len by (rule deque_append_full)
    also have "\<dots> = drop (Suc ?n) (?L @ [x])"
      by (rule tl_drop_snoc) simp
    also have "Suc ?n = length d + length (xs @ [x]) - m"
      using False by simp
    finally show ?thesis using step by simp
  qed
qed

lemma foldl_history_append_history:
  "conversation_history (foldl (\<lambda>s' m. history_append m s') s msgs) =
     foldl (deque_append (max_context_length s)) (conversation_history s) msgs"
  by (induction msgs arbitrary: s) (simp_all add: history_append_history)


lemma process_text_input_history:
  "conversation_history (snd (process_text_input e t s)) =
     conversation_history (foldl (\<lambda>s' m. history_append m s') s
       (if t = [] then []
        else case find (\<lambda>entry. str_in (fst entry) (lower t)) commands of
               Some entry \<Rightarrow> [message ''user'' (JStr t)]
             | None \<Rightarrow> [message ''user'' (JStr t),
                         message ''assistant'' (fst (process_text_input e t s))]))"
  by (simp add: process_text_input_def Let_def split_beta history_append_history
      split: option.splits)


section \<open>The bounded conversation buffer\<close>

text \<open>
  C1. Whatever sequence of calls runs on an assistant whose buffer is within its capacity,
  the buffer stays within \<^verbatim>\<open>max_context_length\<close>. \<^verbatim>\<open>_handle_conversation\<close> and
  \<^verbatim>\<open>process_text_input\<close> change the buffer by appends only (the user turn, then the
  assistant turn where there is one), and a sequence of appends leaves the last
  \<^verbatim>\<open>max_context_length\<close> of the messages, in their order: after \<^verbatim>\<open>max_context_length + k\<close>
  appends the buffer is the appended sequence without its first \<open>k\<close> messages.
\<close>

theorem conversation_buffer_bounded:
  assumes "length (conversation_history s) \<le> max_context_length s"
  shows "length (conversation_history (run e calls s)) \<le> max_context_length s
    \<and> conversation_history (handle_conversation e u s) =
        conversation_history (foldl (\<lambda>s' m. history_append m s') s
          [message ''user'' (JStr u),
           message ''assistant''
             (fst (query_llm e u (history_append (message ''user'' (JStr u)) s)))])
    \<and> conversation_history (snd (process_text_input e t s)) =
        conversation_history (foldl (\<lambda>s' m. history_append m s') s
          (if t = [] then []
           else case find (\<lambda>entry. str_in (fst entry) (lower t)) commands of
                  Some entry \<Rightarrow> [message ''user'' (JStr t)]
                | None \<Rightarrow> [message ''user'' (JStr t),
                            message ''assistant'' (fst (process_text_input e t s))]))
    \<and> conversation_history (foldl (\<lambda>s' m. history_append m s') s msgs) =
        drop (length (conversation_history s) + length msgs - max_context_length s)
          (conversation_history s @ msgs)
    \<and> (length msgs = max_context_length s + k \<longrightarrow>
        conversation_history (foldl (\<lambda>s' m. history_append m s') s msgs) = drop k msgs)"
proof -
  have b: "bounded s" using assms by (simp add: bounded_def)
  have 1: "length (conversation_history (run e calls s)) \<le> max_context_length s"
    using run_bounded [OF b, of e calls] by (simp add: bounded_def)
  have 2: "conversation_history (handle_conversation e u s) =
        conversation_history (foldl (\<lambda>s' m. history_append m s') s
          [message ''user'' (JStr u),
           message ''assistant''
             (fst (query_llm e u (history_append (message ''user'' (JStr u)) s)))])"
    by (simp add: handle_conversation_history history_append_history)
  have 3: "conversation_history (foldl (\<lambda>s' m. history_append m s') s msgs) =
        drop (length (conversation_history s) + length msgs - max_context_length s)
          (conversation_history s @ msgs)" for msgs
    using assms by (simp add: foldl_history_append_history foldl_deque_append)
  have 4: "conversation_history (foldl (\<lambda>s' m. history_append m s') s msgs) = drop k msgs"
    if "length msgs = max_context_length s + k"
    using that assms by (simp add: 3)
  from 1 2 3 4 process_text_input_history [of e t s] show ?thesis by blast
qed

theorem conversation_buffer_bounded_witness:
  "length (conversation_history (fresh 2)) \<le> max_context_length (fresh 2)
   \<and> length (conversation_history
        (run e0 [ProcessTextInput ''hi'', HandleConversation ''bye''] (fresh 2))) \<le> 2
   \<and> conversation_history (foldl (\<lambda>s' m. history_append m s') (fresh 2)
        [message ''user'' (JStr ''hi''), message ''assistant'' (JStr ''hello''),
         message ''user'' (JStr ''bye'')])
     = [message ''assistant'' (JStr ''hello''), message ''user'' (JStr ''bye'')]"
proof -
  have h: "length (conversation_history (fresh 2)) \<le> max_context_length (fresh 2)"
    by (simp add: fresh_def)
  have l: "length [message ''user'' (JStr ''hi''), message ''assistant'' (JStr ''hello''),
         message ''user'' (JStr ''bye'')] = max_context_length (fresh 2) + 1"
    by (simp add: fresh_def)
  show ?thesis
    using h l conversation_buffer_bounded [OF h, of e0
      "[ProcessTextInput ''hi'', HandleConversation ''bye'']" "''x''" "''y''"
      "[message ''user'' (JStr ''hi''), message ''assistant'' (JStr ''hello''),
         message ''user'' (JStr ''bye'')]" 1]
    by (simp add: fresh_def)
qed


section \<open>Failures of the language model\<close>

lemma subscript_not_request: "subscript v k = Inl x \<Longrightarrow> x \<noteq> RequestException"
  by (cases v) (auto split: option.splits)

lemma render_message_not_request:
  "render_message e nm msg = Inl x \<Longrightarrow> x \<noteq> RequestException"
  by (auto simp: render_message_def split: sum.splits dest: subscript_not_request)

lemma build_context_not_request:
  "build_context e nm msgs acc = Inl x \<Longrightarrow> x \<noteq> RequestException"
proof (induction msgs arbitrary: acc)
  case Nil
  then show ?case by simp
next
  case (Cons m msgs)
  then show ?case
    by (auto split: sum.splits dest: render_message_not_request)
qed

lemma assemble_prompt_not_request:
  "assemble_prompt e p s = Inl x \<Longrightarrow> x \<noteq> RequestException"
  by (auto simp: assemble_prompt_def split: sum.splits dest: build_context_not_request)

lemma query_llm_handles:
  "query_llm_try e p s = (Inl x, s') \<Longrightarrow>
   fst (query_llm e p s) = JStr (if x = RequestException then ollama_trouble else unexpected_error)"
  by (cases x) (simp_all add: query_llm_def)

text \<open>
  C2 as written does not hold in its last part. The server answers with status 200, so there
  is neither a connection failure nor a bad status, and decoding the body raises a
  \<^verbatim>\<open>RequestException\<close> (as \<^verbatim>\<open>response.json()\<close> does on a body that is not JSON): the first
  \<^verbatim>\<open>except\<close> clause catches it and the reply is the sentence about Ollama, not the generic
  apology.
\<close>

theorem query_llm_counterexample:
  "assemble_prompt (e0\<lparr>ollama := (\<lambda>n p. Inr (Response 200 (Inl RequestException)))\<rparr>) ''hi''
       (fresh 2) = Inr (''User: hi'' @ [newline] @ ''FRIDAY: '')
   \<and> ollama (e0\<lparr>ollama := (\<lambda>n p. Inr (Response 200 (Inl RequestException)))\<rparr>)
         (length (posted (fresh 2))) (''User: hi'' @ [newline] @ ''FRIDAY: '')
       = Inr (Response 200 (Inl RequestException))
   \<and> status_code (Response 200 (Inl RequestException)) = 200
   \<and> fst (query_llm (e0\<lparr>ollama := (\<lambda>n p. Inr (Response 200 (Inl RequestException)))\<rparr>) ''hi''
          (fresh 2)) =
       JStr ''I'm having trouble connecting to my language model. Is Ollama running?''
   \<and> fst (query_llm (e0\<lparr>ollama := (\<lambda>n p. Inr (Response 200 (Inl RequestException)))\<rparr>) ''hi''
          (fresh 2)) \<noteq>
       JStr ''I encountered an unexpected error. Please try again.''"
  by (simp add: query_llm_def query_llm_try_def assemble_prompt_def in_history_def fresh_def
      e0_def ollama_trouble_def)

text \<open>
  C2, as the code has it. \<^verbatim>\<open>query_llm\<close> returns a reply for every prompt: whatever leaves
  the body of its \<^verbatim>\<open>try\<close>, a value or an exception, is turned into the value returned. A
  \<^verbatim>\<open>RequestException\<close> gives the sentence that asks whether Ollama is running, whether the
  request itself raised it (the connection failure) or the decoding of a reply with status
  200 did; a reply with a status other than 200 gives the sentence about the brain; every
  exception that is not a \<^verbatim>\<open>RequestException\<close>, among them the one an ill-shaped history
  raises while the prompt is put together, gives the generic apology.
\<close>

theorem query_llm_never_raises:
  "(assemble_prompt e prompt s = Inr ctx \<and> ollama e (length (posted s)) ctx = Inl RequestException
      \<longrightarrow> fst (query_llm e prompt s) =
            JStr ''I'm having trouble connecting to my language model. Is Ollama running?'')
   \<and> (assemble_prompt e prompt s = Inr ctx \<and> ollama e (length (posted s)) ctx = Inr resp
        \<and> status_code resp \<noteq> 200
      \<longrightarrow> fst (query_llm e prompt s) =
            JStr ''I'm having trouble connecting to my brain right now.'')
   \<and> (assemble_prompt e prompt s = Inr ctx \<and> ollama e (length (posted s)) ctx = Inr resp
        \<and> status_code resp = 200 \<and> body resp = Inl RequestException
      \<longrightarrow> fst (query_llm e prompt s) =
            JStr ''I'm having trouble connecting to my language model. Is Ollama running?'')
   \<and> (query_llm_try e prompt s = (Inl x, s') \<and> x \<noteq> RequestException
      \<longrightarrow> fst (query_llm e prompt s) =
            JStr ''I encountered an unexpected error. Please try again.'')
   \<and> (query_llm_try e prompt s = (Inl RequestException, s')
      \<longrightarrow> fst (query_llm e prompt s) =
            JStr ''I'm having trouble connecting to my language model. Is Ollama running?'')
   \<and> (assemble_prompt e prompt s = Inl x
      \<longrightarrow> fst (query_llm e prompt s) =
            JStr ''I encountered an unexpected error. Please try again.'')
   \<and> (query_llm_try e prompt s = (Inr v, s') \<longrightarrow> fst (query_llm e prompt s) = v)"
proof (intro conjI impI)
  assume "assemble_prompt e prompt s = Inr ctx \<and> ollama e (length (posted s)) ctx = Inl RequestException"
  then show "fst (query_llm e prompt s) =
            JStr ''I'm having trouble connecting to my language model. Is Ollama running?''"
    by (simp add: query_llm_def query_llm_try_def Let_def ollama_trouble_def)
next
  assume "assemble_prompt e prompt s = Inr ctx \<and> ollama e (length (posted s)) ctx = Inr resp
        \<and> status_code resp \<noteq> 200"
  then show "fst (query_llm e prompt s) =
            JStr ''I'm having trouble connecting to my brain right now.''"
    by (simp add: query_llm_def query_llm_try_def Let_def brain_trouble_def)
next
  assume "assemble_prompt e prompt s = Inr ctx \<and> ollama e (length (posted s)) ctx = Inr resp
        \<and> status_code resp = 200 \<and> body resp = Inl RequestException"
  then show "fst (query_llm e prompt s) =
            JStr ''I'm having trouble connecting to my language model. Is Ollama running?''"
    by (simp add: query_llm_def query_llm_try_def Let_def ollama_trouble_def)
next
  assume "query_llm_try e prompt s = (Inl x, s') \<and> x \<noteq> RequestException"
  then show "fst (query_llm e prompt s) =
            JStr ''I encountered an unexpected error. Please try again.''"
    using query_llm_handles [of e prompt s x s'] by (simp add: unexpected_error_def)
next
  assume "query_llm_try e prompt s = (Inl RequestException, s')"
  then show "fst (query_llm e prompt s) =
            JStr ''I'm having trouble connecting to my language model. Is Ollama running?''"
    using query_llm_handles [of e prompt s RequestException s'] by (simp add: ollama_trouble_def)
next
  assume a: "assemble_prompt e prompt s = Inl x"
  then have "query_llm_try e prompt s = (Inl x, s)" by (simp add: query_llm_try_def)
  moreover have "x \<noteq> RequestException" using a by (rule assemble_prompt_not_request)
  ultimately show "fst (query_llm e prompt s) =
            JStr ''I encountered an unexpected error. Please try again.''"
    using query_llm_handles [of e prompt s x s] by (simp add: unexpected_error_def)
next
  assume "query_llm_try e prompt s = (Inr v, s')"
  then show "fst (query_llm e prompt s) = v" by (simp add: query_llm_def)
qed

theorem query_llm_never_raises_witness:
  "fst (query_llm e0 ''hi'' (fresh 2)) =
     JStr ''I'm having trouble connecting to my language model. Is Ollama running?''
   \<and> fst (query_llm (e0\<lparr>ollama := (\<lambda>n p. Inr (Response 503 (Inl OtherException)))\<rparr>) ''hi''
          (fresh 2)) =
     JStr ''I'm having trouble connecting to my brain right now.''
   \<and> fst (query_llm (e0\<lparr>ollama := (\<lambda>n p. Inr (Response 200 (Inl RequestException)))\<rparr>) ''hi''
          (fresh 2)) =
     JStr ''I'm having trouble connecting to my language model. Is Ollama running?''
   \<and> fst (query_llm (e0\<lparr>ollama := (\<lambda>n p. Inr (Response 200 (Inr (JArr []))))\<rparr>) ''hi''
          (fresh 2)) =
     JStr ''I encountered an unexpected error. Please try again.''
   \<and> fst (query_llm e0 ''hi'' ((fresh 2)\<lparr>conversation_history := [JInt 1]\<rparr>)) =
     JStr ''I encountered an unexpected error. Please try again.''
   \<and> fst (query_llm
        (e0\<lparr>ollama := (\<lambda>n p. Inr (Response 200 (Inr (JObj [(''response'', JStr ''Hello!'')]))))\<rparr>)
        ''hi'' (fresh 2)) = JStr ''Hello!''"
proof -
  let ?ctx = "''User: hi'' @ [newline] @ ''FRIDAY: ''"
  let ?e503 = "e0\<lparr>ollama := (\<lambda>n p. Inr (Response 503 (Inl OtherException)))\<rparr>"
  let ?edec = "e0\<lparr>ollama := (\<lambda>n p. Inr (Response 200 (Inl RequestException)))\<rparr>"
  let ?e200 = "e0\<lparr>ollama := (\<lambda>n p. Inr (Response 200 (Inr (JArr []))))\<rparr>"
  let ?eok = "e0\<lparr>ollama := (\<lambda>n p. Inr (Response 200 (Inr (JObj [(''response'', JStr ''Hello!'')]))))\<rparr>"
  let ?bad = "(fresh 2)\<lparr>conversation_history := [JInt 1]\<rparr>"
  let ?s' = "(fresh 2)\<lparr>posted := [?ctx]\<rparr>"
  have a: "assemble_prompt e0 ''hi'' (fresh 2) = Inr ?ctx
      \<and> ollama e0 (length (posted (fresh 2))) ?ctx = Inl RequestException"
    by (simp add: assemble_prompt_def in_history_def fresh_def e0_def)
  have b: "assemble_prompt ?e503 ''hi'' (fresh 2) = Inr ?ctx
      \<and> ollama ?e503 (length (posted (fresh 2))) ?ctx = Inr (Response 503 (Inl OtherException))
      \<and> status_code (Response 503 (Inl OtherException)) \<noteq> 200"
    by (simp add: assemble_prompt_def in_history_def fresh_def e0_def)
  have b': "assemble_prompt ?edec ''hi'' (fresh 2) = Inr ?ctx
      \<and> ollama ?edec (length (posted (fresh 2))) ?ctx = Inr (Response 200 (Inl RequestException))
      \<and> status_code (Response 200 (Inl RequestException)) = 200
      \<and> body (Response 200 (Inl RequestException)) = Inl RequestException"
    by (simp add: assemble_prompt_def in_history_def fresh_def e0_def)
  have c: "query_llm_try ?e200 ''hi'' (fresh 2) = (Inl AttributeError, ?s')
      \<and> AttributeError \<noteq> RequestException"
    by (simp add: query_llm_try_def assemble_prompt_def in_history_def fresh_def e0_def)
  have d: "assemble_prompt e0 ''hi'' ?bad = Inl TypeError"
    by (simp add: assemble_prompt_def render_message_def fresh_def)
  have g: "query_llm_try ?eok ''hi'' (fresh 2) = (Inr (JStr ''Hello!''), ?s')"
    by (simp add: query_llm_try_def assemble_prompt_def in_history_def fresh_def e0_def)
  have 1: "fst (query_llm e0 ''hi'' (fresh 2)) =
     JStr ''I'm having trouble connecting to my language model. Is Ollama running?''"
    using query_llm_never_raises [where e = e0 and prompt = "''hi''" and s = "fresh 2"
        and ctx = ?ctx, THEN conjunct1, rule_format, OF a] .
  have 2: "fst (query_llm ?e503 ''hi'' (fresh 2)) =
     JStr ''I'm having trouble connecting to my brain right now.''"
    using query_llm_never_raises [where e = ?e503 and prompt = "''hi''" and s = "fresh 2"
        and ctx = ?ctx and resp = "Response 503 (Inl OtherException)",
        THEN conjunct2, THEN conjunct1, rule_format, OF b] .
  have 3: "fst (query_llm ?edec ''hi'' (fresh 2)) =
     JStr ''I'm having trouble connecting to my language model. Is Ollama running?''"
    using query_llm_never_raises [where e = ?edec and prompt = "''hi''" and s = "fresh 2"
        and ctx = ?ctx and resp = "Response 200 (Inl RequestException)",
        THEN conjunct2, THEN conjunct2, THEN conjunct1, rule_format, OF b'] .
  have 4: "fst (query_llm ?e200 ''hi'' (fresh 2)) =
     JStr ''I encountered an unexpected error. Please try again.''"
    using query_llm_never_raises [where e = ?e200 and prompt = "''hi''" and s = "fresh 2"
        and x = AttributeError and s' = ?s',
        THEN conjunct2, THEN conjunct2, THEN conjunct2, THEN conjunct1, rule_format, OF c] .
  have 5: "fst (query_llm e0 ''hi'' ?bad) =
     JStr ''I encountered an unexpected error. Please try again.''"
    using query_llm_never_raises [where e = e0 and prompt = "''hi''" and s = ?bad
        and x = TypeError,
        THEN conjunct2, THEN conjunct2, THEN conjunct2, THEN conjunct2, THEN conjunct2,
        THEN conjunct1, rule_format, OF d] .
  have 6: "fst (query_llm ?eok ''hi'' (fresh 2)) = JStr ''Hello!''"
    using query_llm_never_raises [where e = ?eok and prompt = "''hi''" and s = "fresh 2"
        and v = "JStr ''Hello!''" and s' = ?s',
        THEN conjunct2, THEN conjunct2, THEN conjunct2, THEN conjunct2, THEN conjunct2,
        THEN conjunct2, rule_format, OF g] .
  from 1 2 3 4 5 6 show ?thesis by (intro conjI)
qed


section \<open>The time command\<close>

lemma str_in_nonempty: "str_in p t \<Longrightarrow> p \<noteq> [] \<Longrightarrow> t \<noteq> []"
  by (cases t) auto

lemma tell_time_posted [simp]: "posted (tell_time e s) = posted s"
  by (simp add: tell_time_def speak_def)

lemma history_append_posted [simp]: "posted (history_append m s) = posted s"
  by (simp add: history_append_def)

lemma history_append_spoken [simp]: "spoken (history_append m s) = spoken s"
  by (simp add: history_append_def)

lemma history_append_privacy [simp]: "privacy_mode (history_append m s) = privacy_mode s"
  by (simp add: history_append_def)

text \<open>
  C3 as written does not hold. On \<^verbatim>\<open>What time is it?\<close> the value returned is the
  acknowledgement of the command, in which the formatted time does not occur; and an input
  that contains \<^verbatim>\<open>tell me a story\<close> before the time trigger is routed to the story
  handler, which does post to the language model.
\<close>

theorem time_command_counterexample:
  "fst (process_text_input e0 ''What time is it?'' (fresh 2)) =
     JStr ''Command 'what time is it' executed.''
   \<and> \<not> str_in (strftime_I_M_p (now e0)) ''Command 'what time is it' executed.''
   \<and> str_in ''what time is it'' (lower ''Tell me a story: what time is it'')
   \<and> posted (snd (process_text_input e0 ''Tell me a story: what time is it'' (fresh 2))) \<noteq> []"
  by code_simp

text \<open>
  C3, as the code has it. For an input whose lower-cased text contains
  \<^verbatim>\<open>what time is it\<close> and not the earlier trigger \<^verbatim>\<open>tell me a story\<close>,
  \<^verbatim>\<open>process_text_input\<close> returns the acknowledgement
  \<^verbatim>\<open>Command 'what time is it' executed.\<close> and sends nothing to the language model; the
  sentence with the time, \<^verbatim>\<open>The current time is HH:MM AM\<close> or \<^verbatim>\<open>PM\<close>, goes to \<^verbatim>\<open>speak\<close>
  and is vocalised when privacy mode is off. The theorem before it shows the two ways in
  which the claim as written fails: the returned text holds no time, and an input that also
  contains \<^verbatim>\<open>tell me a story\<close> does reach the language model.
\<close>

theorem time_command_acknowledged:
  assumes "str_in ''what time is it'' (lower text)"
    and "\<not> str_in ''tell me a story'' (lower text)"
  shows "fst (process_text_input e text s) = JStr ''Command 'what time is it' executed.''
    \<and> snd (process_text_input e text s) =
        tell_time e (history_append (message ''user'' (JStr text)) s)
    \<and> posted (snd (process_text_input e text s)) = posted s
    \<and> spoken (snd (process_text_input e text s)) =
        (if privacy_mode s then spoken s
         else spoken s @ [JStr (''The current time is '' @ strftime_I_M_p (now e))])"
proof -
  have ne: "text \<noteq> []"
    using str_in_nonempty [OF assms(1)] by (auto simp: lower_def)
  have f: "find (\<lambda>entry. str_in (fst entry) (lower text)) commands
      = Some (''what time is it'', TellTime)"
    using assms by (simp add: commands_def)
  have r: "fst (process_text_input e text s) = JStr ''Command 'what time is it' executed.''"
    using ne f by (simp add: process_text_input_def Let_def quote_def)
  have st: "snd (process_text_input e text s) =
        tell_time e (history_append (message ''user'' (JStr text)) s)"
    using ne f by (simp add: process_text_input_def Let_def)
  show ?thesis
    unfolding st using r by (simp add: tell_time_def speak_def)
qed

theorem time_command_acknowledged_witness:
  "str_in ''what time is it'' (lower ''What time is it?'')
   \<and> \<not> str_in ''tell me a story'' (lower ''What time is it?'')
   \<and> fst (process_text_input e0 ''What time is it?'' (fresh 2)) =
       JStr ''Command 'what time is it' executed.''
   \<and> posted (snd (process_text_input e0 ''What time is it?'' (fresh 2))) = []
   \<and> spoken (snd (process_text_input e0 ''What time is it?'' (fresh 2))) =
       [JStr ''The current time is 02:05 PM'']"
proof -
  have a: "str_in ''what time is it'' (lower ''What time is it?'')" by code_simp
  have b: "\<not> str_in ''tell me a story'' (lower ''What time is it?'')" by code_simp
  have c: "strftime_I_M_p (now e0) = ''02:05 PM''" by code_simp
  note t = time_command_acknowledged [OF a b, of e0 "fresh 2"]
  have 1: "fst (process_text_input e0 ''What time is it?'' (fresh 2)) =
      JStr ''Command 'what time is it' executed.''"
    using t by (rule conjunct1)
  have 2: "posted (snd (process_text_input e0 ''What time is it?'' (fresh 2))) = posted (fresh 2)"
    using t by blast
  have 3: "spoken (snd (process_text_input e0 ''What time is it?'' (fresh 2))) =
      (if privacy_mode (fresh 2) then spoken (fresh 2)
       else spoken (fresh 2) @ [JStr (''The current time is '' @ strftime_I_M_p (now e0))])"
    using t by blast
  show ?thesis
    using a b 1 2 3 by (simp add: c fresh_def)
qed


section \<open>Loading a session\<close>

text \<open>
  A file that is missing, cannot be opened or does not parse is reported with \<^verbatim>\<open>False\<close>, and
  nothing has been touched by then.
\<close>

lemma load_conversation_unparsed:
  "files s filepath \<in> {None, Some Malformed, Some Unreadable} \<Longrightarrow>
   load_conversation filepath s = (False, s)"
  by (auto simp: load_conversation_def)

text \<open>
  C4 at a failing input. The file holds the JSON number 5, which parses and is not a list of
  messages. \<^verbatim>\<open>load_conversation\<close> has cleared the history (line 371) when the \<^verbatim>\<open>for\<close> loop
  raises on the number: it returns \<^verbatim>\<open>False\<close> with the user turn gone. The loader of
  \<^verbatim>\<open>optimi_fridayapp.py\<close> rejects the same document and keeps its list.
\<close>

theorem load_conversation_clears_before_failing:
  "conversation_history (with_file (Document (JInt 5))) = [message ''user'' (JStr ''hi'')]
   \<and> fst (load_conversation ''chat.json'' (with_file (Document (JInt 5)))) = False
   \<and> conversation_history (snd (load_conversation ''chat.json'' (with_file (Document (JInt 5)))))
       = []
   \<and> load_chat_history (Some (Document (JInt 5))) [message ''user'' (JStr ''hi'')]
       = (False, [message ''user'' (JStr ''hi'')])"
  by (simp add: load_conversation_def with_file_def fresh_def load_chat_history_def)

text \<open>
  C5 at failing inputs. \<^verbatim>\<open>load_conversation\<close> has no check of the shape: a list of
  numbers, a dictionary (the loop takes its keys) and a string (the loop takes its
  characters) are all installed as the history, with \<^verbatim>\<open>True\<close> returned. The check of
  \<^verbatim>\<open>load_chat_history\<close> in \<^verbatim>\<open>optimi_fridayapp.py\<close> refuses each of them.
\<close>

theorem load_conversation_accepts_any_iterable:
  "load_conversation ''chat.json'' (with_file (Document (JArr [JInt 1])))
     = (True, (with_file (Document (JArr [JInt 1])))\<lparr>conversation_history := [JInt 1]\<rparr>)
   \<and> load_conversation ''chat.json'' (with_file (Document (JObj [(''a'', JInt 1)])))
     = (True, (with_file (Document (JObj [(''a'', JInt 1)])))\<lparr>conversation_history := [JStr ''a'']\<rparr>)
   \<and> load_conversation ''chat.json'' (with_file (Document (JStr ''ab'')))
     = (True, (with_file (Document (JStr ''ab'')))\<lparr>conversation_history := [JStr ''a'', JStr ''b'']\<rparr>)
   \<and> \<not> valid_chat_history (JArr [JInt 1])
   \<and> \<not> valid_chat_history (JObj [(''a'', JInt 1)])
   \<and> \<not> valid_chat_history (JStr ''ab'')"
  by (simp add: load_conversation_def with_file_def fresh_def history_append_def deque_append_def)


section \<open>The wake word\<close>

lemma starts_with_append: "starts_with (p @ rest) p"
  by (induction p) simp_all

lemma str_replace_at_match:
  assumes "pattern \<noteq> []"
  shows "str_replace (pattern @ rest) pattern new = new @ str_replace rest pattern new"
proof -
  obtain c cs where p: "pattern = c # cs" using assms by (cases pattern) auto
  have "starts_with ((c # cs) @ rest) (c # cs)" by (rule starts_with_append)
  then show ?thesis by (simp add: p)
qed

lemma find_none_list_ex: "(find P xs = None) = (\<not> list_ex P xs)"
  by (induction xs) simp_all

lemma wake_command_find:
  "wake_command w t =
     (case find (\<lambda>pattern. str_in pattern t) (wake_patterns w) of
        Some pattern \<Rightarrow> Some (strip (str_replace t pattern []))
      | None \<Rightarrow> None)"
  by (cases "find (\<lambda>pattern. str_in pattern t) (wake_patterns w)")
     (simp_all add: wake_command_def find_none_list_ex [symmetric])

text \<open>
  C6 as written does not hold: line 198 calls \<^verbatim>\<open>text.replace(pattern, "")\<close>, which takes
  out every occurrence of the pattern. Where the wake phrase is said twice the code hands on
  \<^verbatim>\<open>say\<close>, while removing the first occurrence only would leave \<^verbatim>\<open>say hey friday\<close>.
\<close>

theorem wake_word_counterexample:
  "wake_command ''friday'' ''hey friday say hey friday'' = Some ''say''
   \<and> strip (spec_remove_first ''hey friday say hey friday'' ''hey friday'') = ''say hey friday''"
  by code_simp

text \<open>
  C6, as the code has it. The detector takes the first of \<^verbatim>\<open>hey w\<close>, \<^verbatim>\<open>ok w\<close>, \<^verbatim>\<open>okay w\<close>,
  \<^verbatim>\<open>hi w\<close>, \<^verbatim>\<open>w\<close> that occurs in the lower-cased transcript, removes every occurrence of
  that pattern (scanning from the left: a match is dropped and the scan goes on behind it,
  any other character is kept) and strips white space from both ends. When no pattern
  occurs nothing happens; otherwise the remainder goes to \<^verbatim>\<open>_process_command\<close>. With the
  wake word \<^verbatim>\<open>friday\<close>, \<^verbatim>\<open>hey friday tell me a story\<close> gives \<^verbatim>\<open>tell me a story\<close> and
  \<^verbatim>\<open>friday\<close> alone gives the empty remainder.
\<close>

theorem wake_word_detector:
  "wake_command w transcript =
     (case find (\<lambda>pattern. str_in pattern transcript)
             [''hey '' @ w, ''ok '' @ w, ''okay '' @ w, ''hi '' @ w, w] of
        Some pattern \<Rightarrow> Some (strip (str_replace transcript pattern []))
      | None \<Rightarrow> None)
   \<and> (pattern \<noteq> [] \<longrightarrow> str_replace (pattern @ rest) pattern [] = str_replace rest pattern [])
   \<and> (pattern \<noteq> [] \<and> \<not> starts_with (c # cs) pattern \<longrightarrow>
        str_replace (c # cs) pattern [] = c # str_replace cs pattern [])
   \<and> (wake_command (wake_word s) (lower heard) = None \<longrightarrow> process_audio e (Some heard) s = s)
   \<and> (wake_command (wake_word s) (lower heard) = Some command \<longrightarrow>
        process_audio e (Some heard) s = process_command e command s)
   \<and> wake_command ''friday'' ''hey friday tell me a story'' = Some ''tell me a story''
   \<and> wake_command ''friday'' ''friday'' = Some ''''"
proof -
  have 1: "wake_command w transcript =
     (case find (\<lambda>pattern. str_in pattern transcript)
             [''hey '' @ w, ''ok '' @ w, ''okay '' @ w, ''hi '' @ w, w] of
        Some pattern \<Rightarrow> Some (strip (str_replace transcript pattern []))
      | None \<Rightarrow> None)"
    using wake_command_find [of w transcript] by (simp only: wake_patterns_def)
  have 2: "pattern \<noteq> [] \<longrightarrow> str_replace (pattern @ rest) pattern [] = str_replace rest pattern []"
    using str_replace_at_match [of pattern rest "[]"] by simp
  have 3: "pattern \<noteq> [] \<and> \<not> starts_with (c # cs) pattern \<longrightarrow>
        str_replace (c # cs) pattern [] = c # str_replace cs pattern []"
    by simp
  have 4: "wake_command (wake_word s) (lower heard) = None \<longrightarrow> process_audio e (Some heard) s = s"
    by (simp add: process_audio_def)
  have 5: "wake_command (wake_word s) (lower heard) = Some command \<longrightarrow>
        process_audio e (Some heard) s = process_command e command s"
    by (simp add: process_audio_def)
  have 6: "wake_command ''friday'' ''hey friday tell me a story'' = Some ''tell me a story''"
    by code_simp
  have 7: "wake_command ''friday'' ''friday'' = Some ''''"
    by code_simp
  from 1 2 3 4 5 6 7 show ?thesis by blast
qed

theorem wake_word_detector_witness:
  "wake_command ''friday'' ''ok friday, hi friday'' = Some '', hi friday''
   \<and> str_replace ''friday friday'' ''friday'' [] = '' ''
   \<and> process_audio e0 (Some ''Hello there'') (fresh 2) = fresh 2
   \<and> process_audio e0 (Some ''Hey Friday'') (fresh 2) = process_command e0 [] (fresh 2)"
proof -
  have p: "''friday'' \<noteq> []" by simp
  have q: "''friday'' \<noteq> [] \<and> \<not> starts_with '' friday'' ''friday''" by simp
  have n: "wake_command (wake_word (fresh 2)) (lower ''Hello there'') = None"
    unfolding fresh_def by code_simp
  have m: "wake_command (wake_word (fresh 2)) (lower ''Hey Friday'') = Some []"
    unfolding fresh_def by code_simp
  have f: "find (\<lambda>pattern. str_in pattern ''ok friday, hi friday'')
             [''hey '' @ ''friday'', ''ok '' @ ''friday'', ''okay '' @ ''friday'',
              ''hi '' @ ''friday'', ''friday''] = Some ''ok friday''"
    by simp
  have r: "strip (str_replace ''ok friday, hi friday'' ''ok friday'' []) = '', hi friday''"
    by code_simp
  have e: "str_replace [] ''friday'' [] = []" by simp
  show ?thesis
    using p q n m f r e
      wake_word_detector [where w = "''friday''" and transcript = "''ok friday, hi friday''"
        and pattern = "''friday''" and rest = "'' friday''" and c = "CHR '' ''"
        and cs = "''friday''" and s = "fresh 2" and heard = "''Hello there''" and e = e0]
      wake_word_detector [where w = "''friday''" and transcript = "''ok friday, hi friday''"
        and pattern = "''friday''" and rest = "[]"
        and s = "fresh 2" and heard = "''Hey Friday''" and e = e0 and command = "[]"]
    by simp
qed


section \<open>The privacy gate\<close>








section \<open>The prompt\<close>

lemma build_context_acc:
  "build_context e nm msgs acc =
     (case build_context e nm msgs [] of Inl x \<Rightarrow> Inl x | Inr r \<Rightarrow> Inr (acc @ r))"
proof (induction msgs arbitrary: acc)
  case Nil
  then show ?case by simp
next
  case (Cons m msgs)
  show ?case
  proof (cases "render_message e nm m")
    case (Inl x)
    then show ?thesis by simp
  next
    case (Inr line)
    have 1: "build_context e nm msgs (acc @ line) =
        (case build_context e nm msgs [] of Inl x \<Rightarrow> Inl x | Inr r \<Rightarrow> Inr ((acc @ line) @ r))"
      by (rule Cons.IH)
    have 2: "build_context e nm msgs line =
        (case build_context e nm msgs [] of Inl x \<Rightarrow> Inl x | Inr r \<Rightarrow> Inr (line @ r))"
      by (rule Cons.IH)
    show ?thesis
      by (cases "build_context e nm msgs []") (simp_all add: Inr 1 2)
  qed
qed

text \<open>A rendered history is the concatenation of the lines of its messages.\<close>

lemma build_context_lines:
  "build_context e nm msgs [] = Inr rendered \<Longrightarrow>
   list_all (\<lambda>msg. isl (render_message e nm msg) = False) msgs
   \<and> rendered = concat (map (\<lambda>msg. projr (render_message e nm msg)) msgs)"
proof (induction msgs arbitrary: rendered)
  case Nil
  then show ?case by simp
next
  case (Cons m msgs)
  from Cons.prems obtain line where line: "render_message e nm m = Inr line"
    by (cases "render_message e nm m") auto
  with Cons.prems have "build_context e nm msgs line = Inr rendered" by simp
  then obtain r where r: "build_context e nm msgs [] = Inr r" and rr: "rendered = line @ r"
    using build_context_acc [of e nm msgs line] by (auto split: sum.splits)
  from Cons.IH [OF r] line rr show ?case by simp
qed

lemma build_context_snoc:
  "build_context e nm (msgs @ [msg]) [] =
     (case build_context e nm msgs [] of
        Inl x \<Rightarrow> Inl x
      | Inr r \<Rightarrow> (case render_message e nm msg of Inl x \<Rightarrow> Inl x | Inr line \<Rightarrow> Inr (r @ line)))"
proof (induction msgs)
  case Nil
  then show ?case by (simp split: sum.splits)
next
  case (Cons m msgs)
  show ?case
  proof (cases "render_message e nm m")
    case (Inl x)
    then show ?thesis by simp
  next
    case (Inr line)
    then show ?thesis
      using build_context_acc [of e nm "msgs @ [msg]" line] build_context_acc [of e nm msgs line]
        Cons.IH
      by (simp split: sum.splits)
  qed
qed

lemma deque_append_last:
  "0 < m \<Longrightarrow> \<exists>ys. deque_append m d x = ys @ [x]"
  by (cases d) (auto simp: deque_append_def Let_def)

lemma in_history_snoc:
  "in_history prompt (ys @ [message ''user'' (JStr prompt)])"
  by (simp add: in_history_def message_def)

lemma render_user_message:
  "render_message e nm (message ''user'' (JStr prompt)) = Inr (''User: '' @ prompt @ [newline])"
  by (simp add: render_message_def message_def format_def)

text \<open>
  C8 as written does not hold: lines 244-245 look for the user turn anywhere in the buffer,
  not at its end. With \<^verbatim>\<open>hi\<close> answered by \<^verbatim>\<open>hello\<close> in the buffer, a query \<^verbatim>\<open>hi\<close> is not the
  most recent entry and still gets no final line. The state is one the assistant reaches: a
  user who has typed the text of the story prompt and then asks for a story gets a second
  request that ends with the \<^verbatim>\<open>tell me a story\<close> turn and holds no line for the story query.
\<close>

theorem prompt_assembly_counterexample:
  "\<not> spec_is_latest ''hi'' [message ''user'' (JStr ''hi''), message ''assistant'' (JStr ''hello'')]
   \<and> assemble_prompt e0 ''hi''
        ((fresh 2)\<lparr>conversation_history :=
           [message ''user'' (JStr ''hi''), message ''assistant'' (JStr ''hello'')]\<rparr>)
       = Inr (''User: hi'' @ [newline] @ ''FRIDAY: hello'' @ [newline])
   \<and> posted (run e0 [ProcessTextInput story_prompt, ProcessTextInput ''tell me a story'']
        (fresh 10)) ! 1
       = ''User: '' @ story_prompt @ [newline] @ ''FRIDAY: '' @ ollama_trouble @ [newline]
           @ ''User: tell me a story'' @ [newline]"
  by code_simp

text \<open>
  C8, as the code has it. When every buffered message has a role and a content, the prompt
  starts with the lines of the messages in buffer order, a user message as
  \<^verbatim>\<open>User: content\<close> and any other as \<^verbatim>\<open>name: content\<close>. The lines for the new user turn
  follow if and only if no message anywhere in the buffer has the role \<^verbatim>\<open>user\<close> and exactly
  that content. So once the utterance has been appended (capacity above zero) the prompt is
  the rendered buffer and nothing more; below capacity that is the old rendering followed by
  one \<^verbatim>\<open>User:\<close> line for the utterance.
\<close>

theorem prompt_assembly:
  assumes "build_context e (name s) (conversation_history s) [] = Inr rendered"
  shows "rendered =
      concat (map (\<lambda>msg. projr (render_message e (name s) msg)) (conversation_history s))
    \<and> render_message e nm (message ''user'' c) = Inr (''User: '' @ format e c @ [newline])
    \<and> (r \<noteq> ''user'' \<longrightarrow>
        render_message e nm (message r c) = Inr (nm @ '': '' @ format e c @ [newline]))
    \<and> assemble_prompt e prompt s =
        Inr (if list_ex (\<lambda>msg. subscript msg ''role'' = Inr (JStr ''user'')
                           \<and> subscript msg ''content'' = Inr (JStr prompt))
                  (conversation_history s)
             then rendered
             else rendered @ ''User: '' @ prompt @ [newline] @ name s @ '': '')
    \<and> (0 < max_context_length s \<longrightarrow>
        assemble_prompt e prompt (history_append (message ''user'' (JStr prompt)) s) =
          build_context e (name s)
            (conversation_history (history_append (message ''user'' (JStr prompt)) s)) [])
    \<and> (length (conversation_history s) < max_context_length s \<longrightarrow>
        assemble_prompt e prompt (history_append (message ''user'' (JStr prompt)) s) =
          Inr (rendered @ ''User: '' @ prompt @ [newline]))"
proof -
  let ?s1 = "history_append (message ''user'' (JStr prompt)) s"
  have 1: "rendered =
      concat (map (\<lambda>msg. projr (render_message e (name s) msg)) (conversation_history s))"
    using build_context_lines [OF assms] by simp
  have 2: "render_message e nm (message ''user'' c) = Inr (''User: '' @ format e c @ [newline])"
    by (simp add: render_message_def message_def)
  have 3: "r \<noteq> ''user'' \<longrightarrow>
        render_message e nm (message r c) = Inr (nm @ '': '' @ format e c @ [newline])"
    by (simp add: render_message_def message_def)
  have eq: "in_history prompt h =
      list_ex (\<lambda>msg. subscript msg ''role'' = Inr (JStr ''user'')
                           \<and> subscript msg ''content'' = Inr (JStr prompt)) h" for h
    by (induction h) (auto simp: in_history_def)
  have 4: "assemble_prompt e prompt s =
        Inr (if list_ex (\<lambda>msg. subscript msg ''role'' = Inr (JStr ''user'')
                           \<and> subscript msg ''content'' = Inr (JStr prompt))
                  (conversation_history s)
             then rendered
             else rendered @ ''User: '' @ prompt @ [newline] @ name s @ '': '')"
    using assms by (simp add: assemble_prompt_def eq)
  have 5: "assemble_prompt e prompt ?s1 =
          build_context e (name s) (conversation_history ?s1) []"
    if "0 < max_context_length s"
  proof -
    have "\<exists>ys. deque_append (max_context_length s) (conversation_history s)
             (message ''user'' (JStr prompt)) = ys @ [message ''user'' (JStr prompt)]"
      using that by (rule deque_append_last)
    then obtain ys where ys: "conversation_history ?s1 = ys @ [message ''user'' (JStr prompt)]"
      by (auto simp: history_append_history)
    have "in_history prompt (conversation_history ?s1)"
      unfolding ys by (rule in_history_snoc)
    then show ?thesis
      by (simp add: assemble_prompt_def history_append_def split: sum.splits)
  qed
  have 6: "assemble_prompt e prompt ?s1 = Inr (rendered @ ''User: '' @ prompt @ [newline])"
    if "length (conversation_history s) < max_context_length s"
  proof -
    have h: "conversation_history ?s1 = conversation_history s @ [message ''user'' (JStr prompt)]"
      using that by (simp add: history_append_history deque_append_def)
    have "build_context e (name s) (conversation_history ?s1) [] =
        Inr (rendered @ ''User: '' @ prompt @ [newline])"
      unfolding h using assms by (simp add: build_context_snoc render_user_message)
    moreover have "0 < max_context_length s" using that by simp
    ultimately show ?thesis using 5 by simp
  qed
  from 1 2 3 4 5 6 show ?thesis by blast
qed

theorem prompt_assembly_witness:
  "build_context e0 ''FRIDAY'' [message ''user'' (JStr ''hi'')] []
       = Inr (''User: hi'' @ [newline])
   \<and> assemble_prompt e0 ''bye'' ((fresh 2)\<lparr>conversation_history := [message ''user'' (JStr ''hi'')]\<rparr>)
       = Inr (''User: hi'' @ [newline] @ ''User: bye'' @ [newline] @ ''FRIDAY: '')
   \<and> assemble_prompt e0 ''bye''
        (history_append (message ''user'' (JStr ''bye''))
           ((fresh 2)\<lparr>conversation_history := [message ''user'' (JStr ''hi'')]\<rparr>))
       = Inr (''User: hi'' @ [newline] @ ''User: bye'' @ [newline])
   \<and> render_message e0 ''FRIDAY'' (message ''assistant'' (JStr ''hello''))
       = Inr (''FRIDAY: hello'' @ [newline])"
proof -
  let ?s = "(fresh 2)\<lparr>conversation_history := [message ''user'' (JStr ''hi'')]\<rparr>"
  have a: "build_context e0 (name ?s) (conversation_history ?s) [] = Inr (''User: hi'' @ [newline])"
    by (simp add: fresh_def render_message_def message_def format_def)
  have b: "0 < max_context_length ?s" "length (conversation_history ?s) < max_context_length ?s"
    "''assistant'' \<noteq> ''user''"
    by (simp_all add: fresh_def)
  have c: "\<not> list_ex (\<lambda>msg. subscript msg ''role'' = Inr (JStr ''user'')
                           \<and> subscript msg ''content'' = Inr (JStr ''bye''))
                  (conversation_history ?s)"
    by (simp add: message_def)
  note t = prompt_assembly [OF a, where prompt = "''bye''" and r = "''assistant''"
        and c = "JStr ''hello''" and nm = "''FRIDAY''"]
  from t c have t4: "assemble_prompt e0 ''bye'' ?s =
      Inr ((''User: hi'' @ [newline]) @ ''User: '' @ ''bye'' @ [newline] @ name ?s @ '': '')"
    by simp
  from t b have t6: "assemble_prompt e0 ''bye'' (history_append (message ''user'' (JStr ''bye'')) ?s) =
      Inr ((''User: hi'' @ [newline]) @ ''User: '' @ ''bye'' @ [newline])"
    by blast
  from t b have t3: "render_message e0 ''FRIDAY'' (message ''assistant'' (JStr ''hello'')) =
      Inr (''FRIDAY'' @ '': '' @ format e0 (JStr ''hello'') @ [newline])"
    by blast
  show ?thesis
    using a t4 t6 t3 by (simp add: fresh_def format_def)
qed


section \<open>Saving and loading back\<close>

lemma load_conversation_document:
  "files t filepath = Some (Document (JArr msgs)) \<Longrightarrow>
   fst (load_conversation filepath t) = True
   \<and> conversation_history (snd (load_conversation filepath t)) =
       foldl (deque_append (max_context_length t)) [] msgs"
  by (simp add: load_conversation_def foldl_history_append_history)

text \<open>
  C9. A buffer within its capacity that \<^verbatim>\<open>save_conversation\<close> has written to a writable path
  comes back from \<^verbatim>\<open>load_conversation\<close> as the same sequence of messages, whatever the
  loading assistant held before, as long as it has the same capacity and sees the file. Both
  calls return \<^verbatim>\<open>True\<close>. (The file is taken to hold the value \<^verbatim>\<open>json.dump\<close> was given:
  \<^verbatim>\<open>json.load\<close> reads back what \<^verbatim>\<open>json.dump\<close> wrote.)
\<close>

theorem save_load_round_trip:
  assumes "length (conversation_history s) \<le> max_context_length s"
    and "writable e filepath"
    and "files t = files (snd (save_conversation e filepath s))"
    and "max_context_length t = max_context_length s"
  shows "fst (save_conversation e filepath s) = True
    \<and> fst (load_conversation filepath t) = True
    \<and> conversation_history (snd (load_conversation filepath t)) = conversation_history s"
proof -
  have saved: "fst (save_conversation e filepath s) = True"
    using assms(2) by (simp add: save_conversation_def)
  have "files t filepath = Some (Document (JArr (conversation_history s)))"
    using assms(2,3) by (simp add: save_conversation_def)
  then have loaded: "fst (load_conversation filepath t) = True
      \<and> conversation_history (snd (load_conversation filepath t)) =
          foldl (deque_append (max_context_length t)) [] (conversation_history s)"
    by (rule load_conversation_document)
  have "foldl (deque_append (max_context_length t)) [] (conversation_history s) =
      conversation_history s"
    using assms(1,4) foldl_deque_append [of "[]" "max_context_length t" "conversation_history s"]
    by simp
  with saved loaded show ?thesis by simp
qed

theorem save_load_round_trip_witness:
  "length (conversation_history (with_file Malformed)) \<le> max_context_length (with_file Malformed)
   \<and> writable e0 ''chat.json''
   \<and> fst (load_conversation ''chat.json''
        ((snd (save_conversation e0 ''chat.json'' (with_file Malformed)))
           \<lparr>conversation_history := [JStr ''other'']\<rparr>)) = True
   \<and> conversation_history (snd (load_conversation ''chat.json''
        ((snd (save_conversation e0 ''chat.json'' (with_file Malformed)))
           \<lparr>conversation_history := [JStr ''other'']\<rparr>)))
       = [message ''user'' (JStr ''hi'')]"
proof -
  let ?s = "with_file Malformed"
  let ?t = "(snd (save_conversation e0 ''chat.json'' ?s))\<lparr>conversation_history := [JStr ''other'']\<rparr>"
  have a: "length (conversation_history ?s) \<le> max_context_length ?s"
    by (simp add: with_file_def fresh_def)
  have b: "writable e0 ''chat.json''" by (simp add: e0_def)
  have c: "files ?t = files (snd (save_conversation e0 ''chat.json'' ?s))" by simp
  have d: "max_context_length ?t = max_context_length ?s" by simp
  have h: "conversation_history ?s = [message ''user'' (JStr ''hi'')]"
    by (simp add: with_file_def)
  show ?thesis
    using a b h save_load_round_trip [OF a b c d] by simp
qed


section \<open>The command path of text input\<close>

text \<open>
  C10 as written does not hold for a buffer at its capacity: the append of the user turn
  evicts the oldest entry, so after the command \<^verbatim>\<open>help\<close> a full buffer of one entry still holds
  one entry, and has not grown.
\<close>

theorem command_path_counterexample:
  "find (\<lambda>entry. str_in (fst entry) (lower ''help'')) commands = Some (''help'', ShowHelp)
   \<and> conversation_history ((fresh 1)\<lparr>conversation_history := [message ''user'' (JStr ''hi'')]\<rparr>)
       = [message ''user'' (JStr ''hi'')]
   \<and> conversation_history (snd (process_text_input e0 ''help''
         ((fresh 1)\<lparr>conversation_history := [message ''user'' (JStr ''hi'')]\<rparr>)))
       = [message ''user'' (JStr ''help'')]"
  by code_simp

text \<open>
  C10, as the code has it. For a non-empty input that matches a trigger,
  \<^verbatim>\<open>process_text_input\<close> appends the user turn first and runs the handler on the buffer that
  already holds it; no handler touches the buffer, so afterwards the buffer is the old one
  after exactly one append, of the user turn, and no assistant turn. Below capacity it is one
  entry longer; at capacity the oldest entry has left and the length is the same. Only when
  no trigger matches is an assistant turn appended after the user turn.
\<close>

theorem command_path_appends_user_turn:
  "(input \<noteq> [] \<and> find (\<lambda>entry. str_in (fst entry) (lower input)) commands = Some entry \<longrightarrow>
      snd (process_text_input e input s) =
        call_handler e (snd entry) (history_append (message ''user'' (JStr input)) s)
      \<and> conversation_history (snd (process_text_input e input s)) =
          deque_append (max_context_length s) (conversation_history s)
            (message ''user'' (JStr input))
      \<and> (length (conversation_history s) < max_context_length s \<longrightarrow>
          conversation_history (snd (process_text_input e input s)) =
            conversation_history s @ [message ''user'' (JStr input)])
      \<and> (length (conversation_history s) = max_context_length s \<longrightarrow>
          conversation_history (snd (process_text_input e input s)) =
            tl (conversation_history s @ [message ''user'' (JStr input)])))
   \<and> (input \<noteq> [] \<and> find (\<lambda>entry. str_in (fst entry) (lower input)) commands = None \<longrightarrow>
      conversation_history (snd (process_text_input e input s)) =
        deque_append (max_context_length s)
          (deque_append (max_context_length s) (conversation_history s)
             (message ''user'' (JStr input)))
          (message ''assistant'' (fst (process_text_input e input s))))"
proof (intro conjI impI)
  assume m: "input \<noteq> [] \<and> find (\<lambda>entry. str_in (fst entry) (lower input)) commands = Some entry"
  then show 1: "snd (process_text_input e input s) =
        call_handler e (snd entry) (history_append (message ''user'' (JStr input)) s)"
    by (simp add: process_text_input_def Let_def)
  then show 2: "conversation_history (snd (process_text_input e input s)) =
        deque_append (max_context_length s) (conversation_history s)
          (message ''user'' (JStr input))"
    by (simp add: history_append_history)
  {
    assume "length (conversation_history s) < max_context_length s"
    then show "conversation_history (snd (process_text_input e input s)) =
          conversation_history s @ [message ''user'' (JStr input)]"
      using 2 by (simp add: deque_append_def)
  }
  {
    assume "length (conversation_history s) = max_context_length s"
    then show "conversation_history (snd (process_text_input e input s)) =
          tl (conversation_history s @ [message ''user'' (JStr input)])"
      using 2 by (simp add: deque_append_def)
  }
next
  assume "input \<noteq> [] \<and> find (\<lambda>entry. str_in (fst entry) (lower input)) commands = None"
  then show "conversation_history (snd (process_text_input e input s)) =
        deque_append (max_context_length s)
          (deque_append (max_context_length s) (conversation_history s)
             (message ''user'' (JStr input)))
          (message ''assistant'' (fst (process_text_input e input s)))"
    by (simp add: process_text_input_def Let_def split_beta history_append_history)
qed

theorem command_path_appends_user_turn_witness:
  "''help'' \<noteq> []
   \<and> find (\<lambda>entry. str_in (fst entry) (lower ''help'')) commands = Some (''help'', ShowHelp)
   \<and> conversation_history (snd (process_text_input e0 ''help'' (with_file Malformed)))
       = [message ''user'' (JStr ''hi''), message ''user'' (JStr ''help'')]
   \<and> conversation_history (snd (process_text_input e0 ''help''
         ((fresh 1)\<lparr>conversation_history := [message ''user'' (JStr ''hi'')]\<rparr>)))
       = [message ''user'' (JStr ''help'')]
   \<and> find (\<lambda>entry. str_in (fst entry) (lower ''hello'')) commands = None
   \<and> conversation_history (snd (process_text_input e0 ''hello'' (fresh 2)))
       = [message ''user'' (JStr ''hello''), message ''assistant'' (JStr ollama_trouble)]"
proof -
  let ?full = "(fresh 1)\<lparr>conversation_history := [message ''user'' (JStr ''hi'')]\<rparr>"
  have a: "''help'' \<noteq> []
      \<and> find (\<lambda>entry. str_in (fst entry) (lower ''help'')) commands = Some (''help'', ShowHelp)"
    by code_simp
  have c: "length (conversation_history (with_file Malformed))
      < max_context_length (with_file Malformed)"
    "conversation_history (with_file Malformed) = [message ''user'' (JStr ''hi'')]"
    by (simp_all add: with_file_def fresh_def)
  have d: "length (conversation_history ?full) = max_context_length ?full"
    "conversation_history ?full = [message ''user'' (JStr ''hi'')]"
    by (simp_all add: fresh_def)
  have n: "''hello'' \<noteq> []
      \<and> find (\<lambda>entry. str_in (fst entry) (lower ''hello'')) commands = None"
    by code_simp
  have f: "fst (process_text_input e0 ''hello'' (fresh 2)) = JStr ollama_trouble"
    by code_simp
  have g: "conversation_history (fresh 2) = []" "max_context_length (fresh 2) = 2"
    by (simp_all add: fresh_def)
  from a c command_path_appends_user_turn [of "''help''" "(''help'', ShowHelp)" e0 "with_file Malformed"]
  have r1: "conversation_history (snd (process_text_input e0 ''help'' (with_file Malformed))) =
      conversation_history (with_file Malformed) @ [message ''user'' (JStr ''help'')]"
    by blast
  from a d command_path_appends_user_turn [of "''help''" "(''help'', ShowHelp)" e0 ?full]
  have r2: "conversation_history (snd (process_text_input e0 ''help'' ?full)) =
      tl (conversation_history ?full @ [message ''user'' (JStr ''help'')])"
    by blast
  from n command_path_appends_user_turn [of "''hello''" _ e0 "fresh 2"]
  have r3: "conversation_history (snd (process_text_input e0 ''hello'' (fresh 2))) =
        deque_append (max_context_length (fresh 2))
          (deque_append (max_context_length (fresh 2)) (conversation_history (fresh 2))
             (message ''user'' (JStr ''hello'')))
          (message ''assistant'' (fst (process_text_input e0 ''hello'' (fresh 2))))"
    by blast
  show ?thesis
    using a n r1 r2 r3 by (simp add: c d f g deque_append_def)
qed

end
